theory Spec2Isabelle
  imports Complex_Main "HOL-Library.Log_Nat"
begin

section \<open>Common conventions\<close>

text \<open>
  Python floats are modelled as real numbers: rounding, infinities and NaN are not
  modelled, except in the definitions whose name ends in \<open>_double\<close>, which round the
  result of every operation to double precision. Every \<open>raise\<close> of an instance of \<open>Exception\<close> is a value \<open>Inl e\<close> of the
  result type \<open>error + 'a\<close>; a \<open>try ... except Exception\<close> block is a case
  distinction on that value. Logging has no effect on the results and is left out, and
  so is the \<open>processing_time\<close> entry, which depends on the clock only.
\<close>

datatype error =
    ValueError string
  | KeyError string
  | IndexError
  | ZeroDivisionError
  | LibraryError string

text \<open>Sequencing of two computations that may raise: the second runs only if the first returned.\<close>

definition and_then :: "error + 'a \<Rightarrow> ('a \<Rightarrow> error + 'b) \<Rightarrow> error + 'b" where
  "and_then m f = (case m of Inl e \<Rightarrow> Inl e | Inr x \<Rightarrow> f x)"

text \<open>\<open>d[k]\<close> on a dictionary, \<open>xs[i]\<close> on a list.\<close>

definition getitem :: "(string \<rightharpoonup> 'v) \<Rightarrow> string \<Rightarrow> error + 'v" where
  "getitem d k = (case d k of None \<Rightarrow> Inl (KeyError k) | Some v \<Rightarrow> Inr v)"

definition getindex :: "'v list \<Rightarrow> nat \<Rightarrow> error + 'v" where
  "getindex xs i = (if i < length xs then Inr (xs ! i) else Inl IndexError)"

text \<open>
  Double precision: \<open>double x\<close> is the number with a significand of 53 bits that is
  nearest to \<open>x\<close>, the one with the even significand when two are equally near. For
  \<open>x \<noteq> 0\<close>, \<open>binade x\<close> is the exponent \<open>e\<close> with \<open>2 ^ e \<le> \<bar>x\<bar> < 2 ^ (e + 1)\<close>. The range
  of the exponent is not bounded here: overflow and subnormal numbers are not modelled.
  A float literal such as \<open>0.3\<close> denotes \<open>double (3 / 10)\<close>, and the result of an operation
  on floats is the \<open>double\<close> of the exact result.
\<close>

definition round_half_even :: "real \<Rightarrow> int" where
  "round_half_even y =
     (let f = \<lfloor>y\<rfloor>; d = y - of_int f
      in if d < 1 / 2 then f else if d > 1 / 2 then f + 1 else if even f then f else f + 1)"

definition binade :: "real \<Rightarrow> int" where
  "binade x = (if \<bar>x\<bar> \<ge> 1 then bitlen \<lfloor>\<bar>x\<bar>\<rfloor> - 1 else - bitlen (\<lceil>1 / \<bar>x\<bar>\<rceil> - 1))"

definition double :: "real \<Rightarrow> real" where
  "double x =
     (if x = 0 then 0
      else of_int (round_half_even (x / 2 powi (binade x - 52))) * 2 powi (binade x - 52))"

section \<open>core/sentiment\_analyzer.py\<close>

text \<open>
  The result dictionary of one model: the keys \<open>sentiment\<close>, \<open>confidence\<close>, \<open>model\<close> and
  \<open>scores\<close>. The ensemble's result has the key \<open>individual_results\<close> too, a dictionary
  in insertion order.
\<close>

record model_result =
  sentiment :: string
  confidence :: real
  model :: string
  scores :: "string \<rightharpoonup> real"

record analysis = model_result +
  individual_results :: "(string \<times> model_result) list option"

text \<open>
  \<open>self.models\<close>, a dictionary with the keys \<open>bert\<close>, \<open>vader\<close>, \<open>textblob\<close> and \<open>custom\<close>, each
  present or not. The libraries behind the entries are outside the repository and are
  functions of the text that may raise:
  \<^item> \<open>bert\<close>: tokenizer, model, softmax and argmax, returning the argmax index and the
    row \<open>scores[0]\<close>;
  \<^item> \<open>vader\<close>: \<open>polarity_scores\<close>, returning a dictionary;
  \<^item> \<open>textblob\<close>: \<open>TextBlob(text).sentiment\<close>, returning polarity and subjectivity;
  \<^item> \<open>custom\<close>: the entry's \<open>weights\<close> dictionary.
\<close>

record sentiment_models =
  bert :: "(string \<Rightarrow> error + nat \<times> real list) option"
  vader :: "(string \<Rightarrow> error + (string \<rightharpoonup> real)) option"
  textblob :: "(string \<Rightarrow> error + real \<times> real) option"
  custom :: "(string \<rightharpoonup> real) option"

definition analyze_with_bert :: "sentiment_models \<Rightarrow> string \<Rightarrow> error + model_result" where
  "analyze_with_bert ms text =
     (case bert ms of
        None \<Rightarrow> Inl (KeyError ''bert'')
      | Some run \<Rightarrow>
          and_then (run text) (\<lambda>(sentiment_id, row).
          and_then (getindex row sentiment_id) (\<lambda>conf.
          and_then (getindex row 1) (\<lambda>p.
          and_then (getindex row 0) (\<lambda>n.
            Inr \<lparr>sentiment = (if sentiment_id = 1 then ''positive'' else ''negative''),
                 confidence = conf,
                 model = ''bert'',
                 scores = [''positive'' \<mapsto> p, ''negative'' \<mapsto> n]\<rparr>)))))"

definition analyze_with_vader :: "sentiment_models \<Rightarrow> string \<Rightarrow> error + model_result" where
  "analyze_with_vader ms text =
     (case vader ms of
        None \<Rightarrow> Inl (KeyError ''vader'')
      | Some polarity_scores \<Rightarrow>
          and_then (polarity_scores text) (\<lambda>sc.
          and_then (getitem sc ''compound'') (\<lambda>compound.
            let s = (if compound \<ge> 0.05 then ''positive''
                     else if compound \<le> - 0.05 then ''negative''
                     else ''neutral'');
                c = (if s = ''neutral'' then 1 - \<bar>compound\<bar> else \<bar>compound\<bar>)
            in
          and_then (getitem sc ''pos'') (\<lambda>pos.
          and_then (getitem sc ''neg'') (\<lambda>neg.
          and_then (getitem sc ''neu'') (\<lambda>neu.
            Inr \<lparr>sentiment = s,
                 confidence = c,
                 model = ''vader'',
                 scores = [''positive'' \<mapsto> pos, ''negative'' \<mapsto> neg,
                           ''neutral'' \<mapsto> neu, ''compound'' \<mapsto> compound]\<rparr>))))))"

definition analyze_with_textblob :: "sentiment_models \<Rightarrow> string \<Rightarrow> error + model_result" where
  "analyze_with_textblob ms text =
     (case textblob ms of
        None \<Rightarrow> Inl (KeyError ''textblob'')
      | Some blob \<Rightarrow>
          and_then (blob text) (\<lambda>(polarity, subjectivity).
            let s = (if polarity > 0.05 then ''positive''
                     else if polarity < - 0.05 then ''negative''
                     else ''neutral'');
                c = (if s = ''neutral'' then 1 - \<bar>polarity\<bar> * subjectivity
                     else \<bar>polarity\<bar> * subjectivity)
            in
            Inr \<lparr>sentiment = s,
                 confidence = c,
                 model = ''textblob'',
                 scores = [''polarity'' \<mapsto> polarity, ''subjectivity'' \<mapsto> subjectivity]\<rparr>))"

text \<open>
  The first part of \<open>_analyze_with_ensemble\<close>: \<open>results\<close> gets one entry for each loaded
  model, in the order bert, vader, textblob; a call that raises ends the whole function.
\<close>

definition add_result ::
  "bool \<Rightarrow> string \<Rightarrow> (error + 'r) \<Rightarrow> (string \<times> 'r) list \<Rightarrow> error + (string \<times> 'r) list" where
  "add_result loaded name call results =
     (if loaded then and_then call (\<lambda>r. Inr (results @ [(name, r)])) else Inr results)"

definition ensemble_results ::
  "sentiment_models \<Rightarrow> string \<Rightarrow> error + (string \<times> model_result) list" where
  "ensemble_results ms text =
     and_then (add_result (bert ms \<noteq> None) ''bert'' (analyze_with_bert ms text) []) (\<lambda>r1.
     and_then (add_result (vader ms \<noteq> None) ''vader'' (analyze_with_vader ms text) r1) (\<lambda>r2.
       add_result (textblob ms \<noteq> None) ''textblob'' (analyze_with_textblob ms text) r2))"

definition default_weights :: "string \<rightharpoonup> real" where
  "default_weights = [''bert'' \<mapsto> 0.6, ''vader'' \<mapsto> 0.3, ''textblob'' \<mapsto> 0.1]"

definition ensemble_weights :: "sentiment_models \<Rightarrow> (string \<rightharpoonup> real)" where
  "ensemble_weights ms = (case custom ms of Some w \<Rightarrow> w | None \<Rightarrow> default_weights)"

text \<open>
  \<open>total_weight = sum(weights[model] for model in available_models if model in weights)\<close>
  and the dictionary comprehension \<open>normalized_weights\<close>. \<open>available_models\<close> is the set of
  the keys of \<open>results\<close>, here the list of these keys (they are distinct); the order of a
  sum of reals does not matter. The division raises when \<open>total_weight\<close> is zero, if the
  comprehension has a model to divide for.
\<close>

definition total_weight :: "(string \<rightharpoonup> real) \<Rightarrow> string list \<Rightarrow> real" where
  "total_weight weights available_models = sum_list (List.map_filter weights available_models)"

definition normalized_weights ::
  "(string \<rightharpoonup> real) \<Rightarrow> string list \<Rightarrow> error + (string \<rightharpoonup> real)" where
  "normalized_weights weights available_models =
     (if total_weight weights available_models = 0
         \<and> (\<exists>m \<in> set available_models. weights m \<noteq> None)
      then Inl ZeroDivisionError
      else Inr (\<lambda>m. if m \<in> set available_models
                     then map_option (\<lambda>w. w / total_weight weights available_models) (weights m)
                     else None))"

text \<open>
  The same two lines on floats. \<open>sum\<close> starts from the integer 0 and adds the weights
  one after the other, rounding each partial sum; each quotient is rounded. The
  dictionary \<open>weights\<close> holds floats already. The order in which Python iterates over the
  set \<open>available_models\<close> is not fixed; the sum is taken in the order of the list, and
  with at most two models every order gives the same float, the addition of floats
  being commutative.
\<close>

definition total_weight_double :: "(string \<rightharpoonup> real) \<Rightarrow> string list \<Rightarrow> real" where
  "total_weight_double weights available_models =
     foldl (\<lambda>acc w. double (acc + w)) 0 (List.map_filter weights available_models)"

definition normalized_weights_double ::
  "(string \<rightharpoonup> real) \<Rightarrow> string list \<Rightarrow> error + (string \<rightharpoonup> real)" where
  "normalized_weights_double weights available_models =
     (if total_weight_double weights available_models = 0
         \<and> (\<exists>m \<in> set available_models. weights m \<noteq> None)
      then Inl ZeroDivisionError
      else Inr (\<lambda>m. if m \<in> set available_models
                     then map_option (\<lambda>w. double (w / total_weight_double weights available_models))
                            (weights m)
                     else None))"

text \<open>
  The loop over \<open>results.items()\<close>, on the three running sums
  \<open>(positive_score, negative_score, neutral_score)\<close>.
\<close>

fun weighted_scores ::
  "(string \<rightharpoonup> real) \<Rightarrow> (string \<times> model_result) list \<Rightarrow> real \<times> real \<times> real
     \<Rightarrow> error + real \<times> real \<times> real" where
  "weighted_scores nw [] acc = Inr acc"
| "weighted_scores nw ((m, result) # rest) (positive_score, negative_score, neutral_score) =
     (if m = ''bert'' then
        and_then (getitem (scores result) ''positive'') (\<lambda>p.
        and_then (getitem nw m) (\<lambda>w.
        and_then (getitem (scores result) ''negative'') (\<lambda>n.
          weighted_scores nw rest
            (positive_score + p * w, negative_score + n * w, neutral_score))))
      else if m = ''vader'' then
        and_then (getitem (scores result) ''positive'') (\<lambda>p.
        and_then (getitem nw m) (\<lambda>w.
        and_then (getitem (scores result) ''negative'') (\<lambda>n.
        and_then (getitem (scores result) ''neutral'') (\<lambda>u.
          weighted_scores nw rest
            (positive_score + p * w, negative_score + n * w, neutral_score + u * w)))))
      else if m = ''textblob'' then
        and_then (getitem (scores result) ''polarity'') (\<lambda>polarity.
          if polarity > 0 then
            and_then (getitem nw m) (\<lambda>w.
              weighted_scores nw rest
                (positive_score + polarity * w, negative_score, neutral_score))
          else if polarity < 0 then
            and_then (getitem nw m) (\<lambda>w.
              weighted_scores nw rest
                (positive_score, negative_score + \<bar>polarity\<bar> * w, neutral_score))
          else
            and_then (getitem nw m) (\<lambda>w.
              weighted_scores nw rest
                (positive_score, negative_score, neutral_score + w)))
      else weighted_scores nw rest (positive_score, negative_score, neutral_score))"

text \<open>The \<open>if/elif/else\<close> that determines the final sentiment and its confidence.\<close>

definition final_sentiment :: "real \<Rightarrow> real \<Rightarrow> real \<Rightarrow> string \<times> real" where
  "final_sentiment positive_score negative_score neutral_score =
     (if positive_score > negative_score \<and> positive_score > neutral_score
        then (''positive'', positive_score)
      else if negative_score > positive_score \<and> negative_score > neutral_score
        then (''negative'', negative_score)
      else (''neutral'', neutral_score))"

text \<open>
  The second part of \<open>_analyze_with_ensemble\<close>, from the dictionary \<open>results\<close> on:
  normalisation of the weights, the weighted sums, the final sentiment.
\<close>

definition ensemble_result ::
  "(string \<times> model_result) list \<Rightarrow> real \<times> real \<times> real \<Rightarrow> analysis" where
  "ensemble_result results s =
     (case s of (positive_score, negative_score, neutral_score) \<Rightarrow>
        \<lparr>sentiment = fst (final_sentiment positive_score negative_score neutral_score),
         confidence = snd (final_sentiment positive_score negative_score neutral_score),
         model = ''ensemble'',
         scores = [''positive'' \<mapsto> positive_score, ''negative'' \<mapsto> negative_score,
                   ''neutral'' \<mapsto> neutral_score],
         individual_results = Some results\<rparr>)"

definition ensemble_of_results ::
  "(string \<rightharpoonup> real) \<Rightarrow> (string \<times> model_result) list \<Rightarrow> error + analysis" where
  "ensemble_of_results weights results =
     and_then (normalized_weights weights (map fst results)) (\<lambda>nw.
     and_then (weighted_scores nw results (0, 0, 0)) (\<lambda>s.
       Inr (ensemble_result results s)))"

text \<open>\<open>_analyze_with_ensemble\<close>: its handler logs the exception and raises it again.\<close>

definition analyze_with_ensemble :: "sentiment_models \<Rightarrow> string \<Rightarrow> error + analysis" where
  "analyze_with_ensemble ms text =
     and_then (ensemble_results ms text) (\<lambda>results. ensemble_of_results (ensemble_weights ms) results)"

definition analyze_with_custom :: "sentiment_models \<Rightarrow> string \<Rightarrow> error + analysis" where
  "analyze_with_custom ms text = analyze_with_ensemble ms text"

text \<open>The result of a single model has no key \<open>individual_results\<close>.\<close>

definition single :: "error + model_result \<Rightarrow> error + analysis" where
  "single r = and_then r (\<lambda>x. Inr (model_result.extend x (analysis.fields None)))"

text \<open>\<open>analyze\<close>: the dispatch on \<open>self.model_type\<close>; the handler raises the exception again.\<close>

definition analyze :: "string \<Rightarrow> sentiment_models \<Rightarrow> string \<Rightarrow> error + analysis" where
  "analyze model_type ms text =
     (if model_type = ''bert'' then single (analyze_with_bert ms text)
      else if model_type = ''vader'' then single (analyze_with_vader ms text)
      else if model_type = ''textblob'' then single (analyze_with_textblob ms text)
      else if model_type = ''custom'' then analyze_with_custom ms text
      else if model_type = ''all'' then analyze_with_ensemble ms text
      else Inl (ValueError (''Unknown model type: '' @ model_type)))"

section \<open>core/emotion\_detector.py\<close>

definition emotions :: "string list" where
  "emotions = [''joy'', ''anger'', ''fear'', ''sadness'', ''surprise'', ''disgust'']"

text \<open>
  \<open>self.models\<close> of the detector: the keys \<open>transformer\<close>, \<open>rule-based\<close> and \<open>custom\<close>.
  The transformer entry is the classifier call \<open>model(text)[0]\<close>, returning for each
  prediction its label in lower case and its score. The rule-based entry holds the
  lexicon (a dictionary in insertion order) and the stopwords. The library calls of the
  rule-based detector are \<open>word_tokenize\<close> (\<open>nltk.word_tokenize(text.lower())\<close>, which
  may raise) and \<open>isalpha\<close>. Whatever is raised inside the rule-based detector, its
  handler catches it.
\<close>

record rule_based_model =
  lexicon :: "(string \<times> string list) list"
  stopwords :: "string set"

record emotion_models =
  transformer :: "(string \<Rightarrow> error + (string \<times> real) list) option"
  rule_based :: "rule_based_model option"
  custom_emotion :: "(string \<rightharpoonup> real) option"

record text_library =
  word_tokenize :: "string \<Rightarrow> error + string list"
  isalpha :: "string \<Rightarrow> bool"

text \<open>\<open>{emotion: v for emotion in self.emotions}\<close>\<close>

definition constant_scores :: "real \<Rightarrow> (string \<rightharpoonup> real)" where
  "constant_scores v = map_of (map (\<lambda>emotion. (emotion, v)) emotions)"

text \<open>The values of a dictionary whose keys are among the emotions.\<close>

definition emotion_values :: "(string \<rightharpoonup> 'v) \<Rightarrow> 'v list" where
  "emotion_values d = List.map_filter d emotions"

fun count_token ::
  "(string \<times> string list) list \<Rightarrow> string \<Rightarrow> (string \<rightharpoonup> nat) \<Rightarrow> error + (string \<rightharpoonup> nat)" where
  "count_token [] token emotion_counts = Inr emotion_counts"
| "count_token ((emotion, ws) # entries) token emotion_counts =
     (if token \<in> set ws then
        and_then (getitem emotion_counts emotion) (\<lambda>c.
          count_token entries token (emotion_counts(emotion \<mapsto> c + 1)))
      else count_token entries token emotion_counts)"

fun count_tokens ::
  "(string \<times> string list) list \<Rightarrow> string list \<Rightarrow> (string \<rightharpoonup> nat) \<Rightarrow> error + (string \<rightharpoonup> nat)" where
  "count_tokens entries [] emotion_counts = Inr emotion_counts"
| "count_tokens entries (token # tokens) emotion_counts =
     and_then (count_token entries token emotion_counts) (count_tokens entries tokens)"

text \<open>\<open>_detect_with_rule_based\<close>: its handler returns the same score for every emotion.\<close>

definition rule_based_scores ::
  "text_library \<Rightarrow> emotion_models \<Rightarrow> string \<Rightarrow> error + (string \<rightharpoonup> real)" where
  "rule_based_scores lib ms text =
     (case rule_based ms of
        None \<Rightarrow> Inl (KeyError ''rule-based'')
      | Some rb \<Rightarrow>
          and_then (word_tokenize lib text) (\<lambda>toks.
            let tokens = filter (\<lambda>token. isalpha lib token \<and> token \<notin> stopwords rb) toks
            in
          and_then (count_tokens (lexicon rb) tokens (map_of (map (\<lambda>e. (e, 0)) emotions)))
            (\<lambda>emotion_counts.
               let s = sum_list (emotion_values emotion_counts);
                   total_count = (if s = 0 then 1 else s);
                   emotion_scores =
                     (\<lambda>emotion. map_option (\<lambda>c. real c / real total_count)
                                   (emotion_counts emotion))
               in
               if list_all (\<lambda>score. score = 0) (emotion_values emotion_scores)
               then Inr (\<lambda>emotion. map_option
                           (\<lambda>score. score / sum_list (emotion_values (constant_scores (1 / 10))))
                           (constant_scores (1 / 10) emotion))
               else Inr emotion_scores)))"

definition detect_with_rule_based ::
  "text_library \<Rightarrow> emotion_models \<Rightarrow> string \<Rightarrow> error + (string \<rightharpoonup> real)" where
  "detect_with_rule_based lib ms text =
     (case rule_based_scores lib ms text of
        Inl e \<Rightarrow> Inr (constant_scores (1 / real (length emotions)))
      | Inr emotion_scores \<Rightarrow> Inr emotion_scores)"

text \<open>\<open>_detect_with_transformer\<close>: its handler falls back to the rule-based detector.\<close>

definition transformer_scores :: "emotion_models \<Rightarrow> string \<Rightarrow> error + (string \<rightharpoonup> real)" where
  "transformer_scores ms text =
     (case transformer ms of
        None \<Rightarrow> Inl (KeyError ''transformer'')
      | Some classify \<Rightarrow>
          and_then (classify text) (\<lambda>predictions.
            let emotion_scores = fold (\<lambda>(label, score) d. d(label \<mapsto> score)) predictions Map.empty
            in Inr (fold (\<lambda>emotion d. if d emotion = None then d(emotion \<mapsto> 0) else d)
                      emotions emotion_scores)))"

definition detect_with_transformer ::
  "text_library \<Rightarrow> emotion_models \<Rightarrow> string \<Rightarrow> error + (string \<rightharpoonup> real)" where
  "detect_with_transformer lib ms text =
     (case transformer_scores ms text of
        Inl e \<Rightarrow> detect_with_rule_based lib ms text
      | Inr emotion_scores \<Rightarrow> Inr emotion_scores)"

definition emotion_results ::
  "text_library \<Rightarrow> emotion_models \<Rightarrow> string \<Rightarrow> error + (string \<times> (string \<rightharpoonup> real)) list" where
  "emotion_results lib ms text =
     and_then (add_result (transformer ms \<noteq> None) ''transformer''
                 (detect_with_transformer lib ms text) []) (\<lambda>r1.
       add_result (rule_based ms \<noteq> None) ''rule-based'' (detect_with_rule_based lib ms text) r1)"

definition default_emotion_weights :: "string \<rightharpoonup> real" where
  "default_emotion_weights = [''transformer'' \<mapsto> 0.7, ''rule-based'' \<mapsto> 0.3]"

definition emotion_weights :: "emotion_models \<Rightarrow> (string \<rightharpoonup> real)" where
  "emotion_weights ms = (case custom_emotion ms of Some w \<Rightarrow> w | None \<Rightarrow> default_emotion_weights)"

text \<open>
  The two nested loops of \<open>_detect_with_ensemble\<close>: for each model's result and each
  emotion that the result has, \<open>emotion_scores[emotion] += result[emotion] *
  normalized_weights[model]\<close>.
\<close>

fun add_emotions ::
  "(string \<rightharpoonup> real) \<Rightarrow> string \<Rightarrow> (string \<rightharpoonup> real) \<Rightarrow> string list \<Rightarrow> (string \<rightharpoonup> real)
     \<Rightarrow> error + (string \<rightharpoonup> real)" where
  "add_emotions nw m result [] emotion_scores = Inr emotion_scores"
| "add_emotions nw m result (emotion # es) emotion_scores =
     (case result emotion of
        None \<Rightarrow> add_emotions nw m result es emotion_scores
      | Some v \<Rightarrow>
          and_then (getitem emotion_scores emotion) (\<lambda>old.
          and_then (getitem nw m) (\<lambda>w.
            add_emotions nw m result es (emotion_scores(emotion \<mapsto> old + v * w)))))"

fun weighted_emotions ::
  "(string \<rightharpoonup> real) \<Rightarrow> (string \<times> (string \<rightharpoonup> real)) list \<Rightarrow> (string \<rightharpoonup> real)
     \<Rightarrow> error + (string \<rightharpoonup> real)" where
  "weighted_emotions nw [] emotion_scores = Inr emotion_scores"
| "weighted_emotions nw ((m, result) # rest) emotion_scores =
     and_then (add_emotions nw m result emotions emotion_scores) (weighted_emotions nw rest)"

definition emotions_of_results ::
  "(string \<rightharpoonup> real) \<Rightarrow> (string \<times> (string \<rightharpoonup> real)) list \<Rightarrow> error + (string \<rightharpoonup> real)" where
  "emotions_of_results weights results =
     and_then (normalized_weights weights (map fst results)) (\<lambda>nw.
       weighted_emotions nw results (constant_scores 0))"

text \<open>\<open>_detect_with_ensemble\<close>: its handler returns the same score for every emotion.\<close>

definition detect_with_ensemble ::
  "text_library \<Rightarrow> emotion_models \<Rightarrow> string \<Rightarrow> error + (string \<rightharpoonup> real)" where
  "detect_with_ensemble lib ms text =
     (case and_then (emotion_results lib ms text) (emotions_of_results (emotion_weights ms)) of
        Inl e \<Rightarrow> Inr (constant_scores (1 / real (length emotions)))
      | Inr emotion_scores \<Rightarrow> Inr emotion_scores)"

definition detect_with_custom ::
  "text_library \<Rightarrow> emotion_models \<Rightarrow> string \<Rightarrow> error + (string \<rightharpoonup> real)" where
  "detect_with_custom lib ms text = detect_with_ensemble lib ms text"

text \<open>
  \<open>detect\<close> calls the four detectors as methods of \<open>self\<close>, which are bound when the call
  is made: the model takes them as a record, so that it says what \<open>detect\<close> does with
  whatever the method it dispatches to returns or raises. \<open>own_methods\<close> are the methods
  of the class itself.
\<close>

record detector_methods =
  call_transformer :: "string \<Rightarrow> error + (string \<rightharpoonup> real)"
  call_rule_based :: "string \<Rightarrow> error + (string \<rightharpoonup> real)"
  call_custom :: "string \<Rightarrow> error + (string \<rightharpoonup> real)"
  call_ensemble :: "string \<Rightarrow> error + (string \<rightharpoonup> real)"

definition own_methods :: "text_library \<Rightarrow> emotion_models \<Rightarrow> detector_methods" where
  "own_methods lib ms =
     \<lparr>call_transformer = detect_with_transformer lib ms,
      call_rule_based = detect_with_rule_based lib ms,
      call_custom = detect_with_custom lib ms,
      call_ensemble = detect_with_ensemble lib ms\<rparr>"

definition dispatch ::
  "detector_methods \<Rightarrow> string \<Rightarrow> emotion_models \<Rightarrow> string \<Rightarrow> error + (string \<rightharpoonup> real)" where
  "dispatch self model_type ms text =
     (if model_type = ''transformer'' \<and> transformer ms \<noteq> None then call_transformer self text
      else if model_type = ''rule-based''
              \<or> (model_type = ''transformer'' \<and> transformer ms = None)
        then call_rule_based self text
      else if model_type = ''custom'' then call_custom self text
      else if model_type = ''all'' then call_ensemble self text
      else call_rule_based self text)"

definition detect_by ::
  "detector_methods \<Rightarrow> string \<Rightarrow> emotion_models \<Rightarrow> string \<Rightarrow> error + (string \<rightharpoonup> real)" where
  "detect_by self model_type ms text =
     (case dispatch self model_type ms text of
        Inl e \<Rightarrow> Inr (constant_scores 0)
      | Inr result \<Rightarrow> Inr (result |` set emotions))"

definition detect ::
  "text_library \<Rightarrow> string \<Rightarrow> emotion_models \<Rightarrow> string \<Rightarrow> error + (string \<rightharpoonup> real)" where
  "detect lib model_type ms text = detect_by (own_methods lib ms) model_type ms text"

section \<open>streaming/stream\_manager.py\<close>

text \<open>
  The dictionary of one stream (the key \<open>id\<close> is \<open>stream_id\<close> here, \<open>error\<close> is
  \<open>stream_error\<close>) and of one buffered item (\<open>text\<close>, \<open>sentiment\<close> and \<open>emotions\<close> are
  \<open>item_text\<close>, \<open>item_sentiment\<close> and \<open>item_emotions\<close>; the key \<open>processed_text\<close> is absent
  until \<open>process_stream\<close> adds it). The status is a string, as in the source.
\<close>

record stream =
  stream_id :: string
  source :: string
  query :: string
  duration :: int
  start_time :: string
  status :: string
  data_count :: int
  stream_error :: "string option"

record item =
  timestamp :: string
  item_text :: string
  processed :: bool
  item_sentiment :: "analysis option"
  item_emotions :: "(string \<rightharpoonup> real) option"
  processed_text :: "string option"

type_synonym callback = "string \<Rightarrow> string \<Rightarrow> error + unit"

record manager =
  active_streams :: "string \<rightharpoonup> stream"
  stream_results :: "string \<rightharpoonup> item list"
  stream_callbacks :: "string \<rightharpoonup> callback list"

text \<open>\<open>__init__\<close>\<close>

definition init_manager :: manager where
  "init_manager = \<lparr>active_streams = Map.empty, stream_results = Map.empty,
                    stream_callbacks = Map.empty\<rparr>"

text \<open>
  An assignment \<open>self.active_streams[stream_id][key] = value\<close>, or several of them in a
  row: it raises when the stream is not in the table.
\<close>

definition update_stream ::
  "manager \<Rightarrow> string \<Rightarrow> (stream \<Rightarrow> stream) \<Rightarrow> (error + unit) \<times> manager" where
  "update_stream m sid f =
     (case active_streams m sid of
        None \<Rightarrow> (Inl (KeyError sid), m)
      | Some s \<Rightarrow> (Inr (), m\<lparr>active_streams := (active_streams m)(sid \<mapsto> f s)\<rparr>))"

text \<open>
  The common shape of \<open>_start_twitter_stream\<close>, \<open>_start_reddit_stream\<close>,
  \<open>_start_kafka_stream\<close> and \<open>_start_custom_stream\<close>: the set-up of the source and the
  creation of the task either return, and the status becomes running, or raise, and the
  handler records the error. \<open>outcome\<close> is what the set-up did: \<open>Inr ()\<close> when it
  returned, \<open>Inl msg\<close> when it raised an exception \<open>e\<close>, of which the handler uses the
  string \<open>msg = str(e)\<close> only.
\<close>

definition start_source_stream ::
  "manager \<Rightarrow> string \<Rightarrow> string + unit \<Rightarrow> (error + unit) \<times> manager" where
  "start_source_stream m sid outcome =
     (case outcome of
        Inr _ \<Rightarrow> update_stream m sid (\<lambda>s. s\<lparr>status := ''running''\<rparr>)
      | Inl msg \<Rightarrow> update_stream m sid (\<lambda>s. s\<lparr>status := ''error'', stream_error := Some msg\<rparr>))"

text \<open>
  \<open>start_stream\<close>. The fresh identifier \<open>uuid4\<close> and the time \<open>now\<close> are parameters, and
  so is \<open>launch\<close>, the outcome of the set-up for each source.
\<close>

definition start_stream ::
  "manager \<Rightarrow> string \<Rightarrow> string \<Rightarrow> (string \<Rightarrow> string + unit) \<Rightarrow> string \<Rightarrow> string \<Rightarrow> int
     \<Rightarrow> (error + string) \<times> manager" where
  "start_stream m uuid4 now launch src q d =
     (let m1 = m\<lparr>active_streams := (active_streams m)(uuid4 \<mapsto>
                    \<lparr>stream_id = uuid4, source = src, query = q, duration = d,
                     start_time = now, status = ''initializing'', data_count = 0,
                     stream_error = None\<rparr>),
                 stream_results := (stream_results m)(uuid4 \<mapsto> [])\<rparr>
      in if src = ''twitter'' \<or> src = ''reddit'' \<or> src = ''kafka'' \<or> src = ''custom''
         then (case start_source_stream m1 uuid4 (launch src) of
                 (Inl e, m2) \<Rightarrow> (Inl e, m2)
               | (Inr _, m2) \<Rightarrow> (Inr uuid4, m2))
         else (Inl (ValueError (''Unknown source: '' @ src)), m1))"

text \<open>
  The end of a task \<open>_run_twitter_stream\<close>, \<open>_run_reddit_stream\<close>, \<open>_run_kafka_stream\<close> or
  \<open>_run_custom_stream\<close>: when its loop is over the task writes the status completed, and
  when its body raised the handler writes the error. The task runs between the other
  operations of the manager; this is its last step. \<open>outcome\<close> is \<open>Inr ()\<close> when the
  loop ended and \<open>Inl msg\<close> when the body raised an exception \<open>e\<close> with \<open>msg = str(e)\<close>.
\<close>

definition run_stream_end ::
  "manager \<Rightarrow> string \<Rightarrow> string + unit \<Rightarrow> (error + unit) \<times> manager" where
  "run_stream_end m sid outcome =
     (case outcome of
        Inr _ \<Rightarrow> update_stream m sid (\<lambda>s. s\<lparr>status := ''completed''\<rparr>)
      | Inl msg \<Rightarrow> update_stream m sid (\<lambda>s. s\<lparr>status := ''error'', stream_error := Some msg\<rparr>))"

text \<open>
  \<open>_process_stream_data\<close>: the item is appended and counted; every exception is caught.
  The callbacks that run afterwards do not write to the manager and are left out.
\<close>

definition process_stream_data :: "manager \<Rightarrow> string \<Rightarrow> string \<Rightarrow> string \<Rightarrow> manager" where
  "process_stream_data m sid now text =
     (case stream_results m sid of
        None \<Rightarrow> m
      | Some items \<Rightarrow>
          (let m1 = m\<lparr>stream_results := (stream_results m)(sid \<mapsto> items @
                         [\<lparr>timestamp = now, item_text = text, processed = False,
                           item_sentiment = None, item_emotions = None,
                           processed_text = None\<rparr>])\<rparr>
           in case active_streams m1 sid of
                None \<Rightarrow> m1
              | Some s \<Rightarrow> m1\<lparr>active_streams :=
                              (active_streams m1)(sid \<mapsto> s\<lparr>data_count := data_count s + 1\<rparr>)\<rparr>))"

text \<open>
  The loop of \<open>process_stream\<close> over the buffer. \<open>tp\<close> is \<open>text_processor.process\<close>, which
  catches its own exceptions, and \<open>sa\<close> is \<open>sentiment_analyzer.analyze\<close>, which may raise:
  then the loop ends, and the items written so far stay written. The function returns
  the texts it passed to the analyzer, in order, and the buffer.
\<close>

fun process_items ::
  "(string \<Rightarrow> string) \<Rightarrow> (string \<Rightarrow> error + analysis) \<Rightarrow> item list \<Rightarrow> string list \<times> item list" where
  "process_items tp sa [] = ([], [])"
| "process_items tp sa (item # rest) =
     (if \<not> processed item then
        (let ptext = tp (item_text item) in
         case sa ptext of
           Inl e \<Rightarrow> ([ptext], item # rest)
         | Inr sentiment_result \<Rightarrow>
             (let (calls, rest') = process_items tp sa rest
              in (ptext # calls,
                  item\<lparr>processed := True, processed_text := Some ptext,
                       item_sentiment := Some sentiment_result\<rparr> # rest')))
      else (let (calls, rest') = process_items tp sa rest in (calls, item # rest')))"

text \<open>
  \<open>process_stream\<close>: the exception for an unknown stream is raised inside the \<open>try\<close>
  block, whose handler logs it, so the function returns.
\<close>

definition process_stream ::
  "manager \<Rightarrow> string \<Rightarrow> (string \<Rightarrow> error + analysis) \<Rightarrow> (string \<Rightarrow> string)
     \<Rightarrow> (error + unit) \<times> manager" where
  "process_stream m sid sa tp =
     (if active_streams m sid = None then (Inr (), m)
      else case stream_results m sid of
             None \<Rightarrow> (Inr (), m)
           | Some items \<Rightarrow>
               (Inr (), m\<lparr>stream_results :=
                            (stream_results m)(sid \<mapsto> snd (process_items tp sa items))\<rparr>))"

definition register_callback :: "manager \<Rightarrow> string \<Rightarrow> callback \<Rightarrow> (error + unit) \<times> manager" where
  "register_callback m sid cb =
     (Inr (), m\<lparr>stream_callbacks := (stream_callbacks m)(sid \<mapsto>
                   (case stream_callbacks m sid of None \<Rightarrow> [] | Some cbs \<Rightarrow> cbs) @ [cb])\<rparr>)"

definition not_found :: "string \<Rightarrow> error" where
  "not_found sid = ValueError (''Stream '' @ sid @ '' not found'')"

definition get_stream_status :: "manager \<Rightarrow> string \<Rightarrow> error + stream" where
  "get_stream_status m sid =
     (case active_streams m sid of None \<Rightarrow> Inl (not_found sid) | Some s \<Rightarrow> Inr s)"

text \<open>\<open>results[-limit:]\<close>\<close>

definition last_items :: "int \<Rightarrow> 'a list \<Rightarrow> 'a list" where
  "last_items limit xs =
     (if limit > 0 then drop (length xs - nat limit) xs else drop (nat (- limit)) xs)"

definition get_stream_results :: "manager \<Rightarrow> string \<Rightarrow> int \<Rightarrow> bool \<Rightarrow> error + item list" where
  "get_stream_results m sid limit processed_only =
     (case stream_results m sid of
        None \<Rightarrow> Inl (not_found sid)
      | Some results \<Rightarrow>
          Inr (last_items limit (if processed_only then filter processed results else results)))"

definition stop_stream :: "manager \<Rightarrow> string \<Rightarrow> (error + unit) \<times> manager" where
  "stop_stream m sid =
     (case active_streams m sid of
        None \<Rightarrow> (Inl (not_found sid), m)
      | Some s \<Rightarrow> (Inr (), m\<lparr>active_streams := (active_streams m)(sid \<mapsto> s\<lparr>status := ''stopped''\<rparr>)\<rparr>))"

section \<open>Values used in the statements\<close>

text \<open>The result of the sentiment ensemble when no model gave a result.\<close>

definition neutral_default :: analysis where
  "neutral_default =
     \<lparr>sentiment = ''neutral'', confidence = 0, model = ''ensemble'',
      scores = [''positive'' \<mapsto> 0, ''negative'' \<mapsto> 0, ''neutral'' \<mapsto> 0],
      individual_results = Some []\<rparr>"

text \<open>The score that a result has under a key, when there is a result.\<close>

definition score_of :: "error + analysis \<Rightarrow> string \<Rightarrow> real option" where
  "score_of r k = (case r of Inl e \<Rightarrow> None | Inr a \<Rightarrow> scores a k)"

text \<open>Analyzers and detectors on which the theorems are run.\<close>

definition custom_only :: sentiment_models where
  "custom_only =
     \<lparr>bert = None, vader = None, textblob = None,
      custom = Some [''bert'' \<mapsto> 2, ''vader'' \<mapsto> 5]\<rparr>"

definition vader_only :: sentiment_models where
  "vader_only =
     \<lparr>bert = None,
      vader = Some (\<lambda>text. Inr [''pos'' \<mapsto> 4 / 5, ''neg'' \<mapsto> 1 / 10, ''neu'' \<mapsto> 1 / 10,
                                 ''compound'' \<mapsto> 7 / 10]),
      textblob = None, custom = None\<rparr>"

definition failing_vader :: sentiment_models where
  "failing_vader =
     \<lparr>bert = None,
      vader = Some (\<lambda>text. Inl (LibraryError ''vader failed'')),
      textblob = Some (\<lambda>text. Inr (1 / 2, 1 / 2)),
      custom = None\<rparr>"

definition textblob_only :: sentiment_models where
  "textblob_only =
     \<lparr>bert = None, vader = None, textblob = Some (\<lambda>text. Inr (0, 0)), custom = None\<rparr>"

definition no_emotion_models :: emotion_models where
  "no_emotion_models = \<lparr>transformer = None, rule_based = None, custom_emotion = None\<rparr>"

definition whole_text :: text_library where
  "whole_text = \<lparr>word_tokenize = (\<lambda>text. Inr [text]), isalpha = (\<lambda>token. True)\<rparr>"

text \<open>
  Results of vader and textblob, and the weights that the default configuration applies
  to the two when bert is not available.
\<close>

definition vader_result :: model_result where
  "vader_result =
     \<lparr>sentiment = ''positive'', confidence = 7 / 10, model = ''vader'',
      scores = [''positive'' \<mapsto> 4 / 5, ''negative'' \<mapsto> 1 / 10, ''neutral'' \<mapsto> 1 / 10,
                ''compound'' \<mapsto> 7 / 10]\<rparr>"

definition textblob_result :: model_result where
  "textblob_result =
     \<lparr>sentiment = ''positive'', confidence = 1 / 4, model = ''textblob'',
      scores = [''polarity'' \<mapsto> 1 / 2, ''subjectivity'' \<mapsto> 1 / 2]\<rparr>"

definition vader_textblob_weights :: "string \<rightharpoonup> real" where
  "vader_textblob_weights = [''vader'' \<mapsto> 3 / 4, ''textblob'' \<mapsto> 1 / 4]"

text \<open>The list of results of a call that returned.\<close>

definition results_of :: "error + 'a list \<Rightarrow> 'a list" where
  "results_of r = (case r of Inl e \<Rightarrow> [] | Inr rs \<Rightarrow> rs)"

text \<open>The models that are loaded, in the order in which the ensembles call them.\<close>

definition loaded_models :: "sentiment_models \<Rightarrow> string list" where
  "loaded_models ms =
     (if bert ms \<noteq> None then [''bert''] else []) @
     (if vader ms \<noteq> None then [''vader''] else []) @
     (if textblob ms \<noteq> None then [''textblob''] else [])"

definition loaded_emotion_models :: "emotion_models \<Rightarrow> string list" where
  "loaded_emotion_models es =
     (if transformer es \<noteq> None then [''transformer''] else []) @
     (if rule_based es \<noteq> None then [''rule-based''] else [])"

text \<open>
  What one pass of the loop of \<open>weighted_scores\<close> adds to the three sums, and the
  addition of a triple to a result; both serve the proofs about the loop.
\<close>

definition entry_scores ::
  "(string \<rightharpoonup> real) \<Rightarrow> string \<Rightarrow> model_result \<Rightarrow> error + real \<times> real \<times> real" where
  "entry_scores nw m result =
     (if m = ''bert'' then
        and_then (getitem (scores result) ''positive'') (\<lambda>p.
        and_then (getitem nw m) (\<lambda>w.
        and_then (getitem (scores result) ''negative'') (\<lambda>n. Inr (p * w, n * w, 0))))
      else if m = ''vader'' then
        and_then (getitem (scores result) ''positive'') (\<lambda>p.
        and_then (getitem nw m) (\<lambda>w.
        and_then (getitem (scores result) ''negative'') (\<lambda>n.
        and_then (getitem (scores result) ''neutral'') (\<lambda>u. Inr (p * w, n * w, u * w)))))
      else if m = ''textblob'' then
        and_then (getitem (scores result) ''polarity'') (\<lambda>polarity.
          if polarity > 0 then and_then (getitem nw m) (\<lambda>w. Inr (polarity * w, 0, 0))
          else if polarity < 0 then and_then (getitem nw m) (\<lambda>w. Inr (0, \<bar>polarity\<bar> * w, 0))
          else and_then (getitem nw m) (\<lambda>w. Inr (0, 0, w)))
      else Inr (0, 0, 0))"

definition add_to ::
  "real \<times> real \<times> real \<Rightarrow> error + real \<times> real \<times> real \<Rightarrow> error + real \<times> real \<times> real" where
  "add_to acc r =
     (case r of Inl e \<Rightarrow> Inl e
      | Inr (p, n, u) \<Rightarrow> Inr (fst acc + p, fst (snd acc) + n, snd (snd acc) + u))"

text \<open>The status of a stream in the table, if the stream is there.\<close>

definition status_of :: "manager \<Rightarrow> string \<Rightarrow> string option" where
  "status_of m sid = map_option status (active_streams m sid)"

text \<open>
  A manager with one stream of the source \<open>custom\<close>, whose set-up returned; the same after
  its task ended; the same with two items in its buffer.
\<close>

definition launch_ok :: "string \<Rightarrow> string + unit" where
  "launch_ok src = Inr ()"

definition started :: manager where
  "started = snd (start_stream init_manager ''id-1'' ''10:00'' launch_ok ''custom'' ''news'' 1)"

definition completed :: manager where
  "completed = snd (run_stream_end started ''id-1'' (Inr ()))"

definition buffered :: manager where
  "buffered =
     process_stream_data (process_stream_data started ''id-1'' ''10:01'' ''bad'')
       ''id-1'' ''10:02'' ''good''"

text \<open>A callback, an analyzer that raises on one text, and an item as it is buffered.\<close>

definition quiet_callback :: callback where
  "quiet_callback sid text = Inr ()"

definition picky_analyzer :: "string \<Rightarrow> error + analysis" where
  "picky_analyzer text =
     (if text = ''bad'' then Inl (LibraryError ''model failed'') else Inr neutral_default)"

definition raw_item :: "string \<Rightarrow> item" where
  "raw_item text =
     \<lparr>timestamp = ''10:00'', item_text = text, processed = False, item_sentiment = None,
      item_emotions = None, processed_text = None\<rparr>"

text \<open>The manager \<open>started\<close> with two items in its buffer on which the analyzer returns.\<close>

definition buffered_ok :: manager where
  "buffered_ok =
     process_stream_data (process_stream_data started ''id-1'' ''10:00'' ''good'')
       ''id-1'' ''10:00'' ''fine''"

text \<open>
  An item on which a pass of \<open>process_stream\<close> stops, and the item that a pass leaves
  for an item it does not stop on.
\<close>

definition fails :: "(string \<Rightarrow> string) \<Rightarrow> (string \<Rightarrow> error + analysis) \<Rightarrow> item \<Rightarrow> bool" where
  "fails tp sa it = (\<not> processed it \<and> isl (sa (tp (item_text it))))"

definition scored :: "(string \<Rightarrow> string) \<Rightarrow> (string \<Rightarrow> error + analysis) \<Rightarrow> item \<Rightarrow> item" where
  "scored tp sa it =
     (if processed it then it
      else case sa (tp (item_text it)) of
             Inl e \<Rightarrow> it
           | Inr r \<Rightarrow> it\<lparr>processed := True, processed_text := Some (tp (item_text it)),
                        item_sentiment := Some r\<rparr>)"

text \<open>Methods of which one raises, and a detector with the transformer loaded.\<close>

definition raising_methods :: detector_methods where
  "raising_methods =
     \<lparr>call_transformer = (\<lambda>text. Inl (LibraryError ''out of memory'')),
      call_rule_based = (\<lambda>text. Inr (constant_scores (1 / 6))),
      call_custom = (\<lambda>text. Inr (constant_scores (1 / 6))),
      call_ensemble = (\<lambda>text. Inr (constant_scores (1 / 6)))\<rparr>"

definition transformer_loaded :: emotion_models where
  "transformer_loaded =
     \<lparr>transformer = Some (\<lambda>text. Inr [(''joy'', 1)]), rule_based = None,
      custom_emotion = None\<rparr>"

text \<open>
  The weighted sums as the claims state them. \<open>entry d k\<close> is the number under the key \<open>k\<close>
  of \<open>d\<close>, and 0 when there is none. \<open>three_way m r\<close> is what the result \<open>r\<close> of the model
  \<open>m\<close> stands for in the positive, the negative and the neutral score, before any
  weight: bert has no neutral part, textblob puts the whole of its polarity on one side
  and counts as fully neutral when its polarity is zero. A result is \<open>usable\<close> for the
  ensemble when it has the scores that the ensemble reads from it. \<open>applied_sum nw rs f\<close>
  is the sum, over the results \<open>rs\<close> in their order, of the quantity \<open>f\<close> of each result
  times the weight \<open>nw\<close> of its model.
\<close>

definition entry :: "(string \<rightharpoonup> real) \<Rightarrow> string \<Rightarrow> real" where
  "entry d k = (case d k of None \<Rightarrow> 0 | Some v \<Rightarrow> v)"

definition three_way :: "string \<Rightarrow> model_result \<Rightarrow> real \<times> real \<times> real" where
  "three_way m r =
     (if m = ''bert'' then (entry (scores r) ''positive'', entry (scores r) ''negative'', 0)
      else if m = ''vader'' then
        (entry (scores r) ''positive'', entry (scores r) ''negative'', entry (scores r) ''neutral'')
      else if m = ''textblob'' then
        (if entry (scores r) ''polarity'' > 0 then (entry (scores r) ''polarity'', 0, 0)
         else if entry (scores r) ''polarity'' < 0 then (0, \<bar>entry (scores r) ''polarity''\<bar>, 0)
         else (0, 0, 1))
      else (0, 0, 0))"

definition usable :: "string \<Rightarrow> model_result \<Rightarrow> bool" where
  "usable m r =
     (if m = ''bert'' then scores r ''positive'' \<noteq> None \<and> scores r ''negative'' \<noteq> None
      else if m = ''vader'' then
        scores r ''positive'' \<noteq> None \<and> scores r ''negative'' \<noteq> None
        \<and> scores r ''neutral'' \<noteq> None
      else if m = ''textblob'' then scores r ''polarity'' \<noteq> None
      else True)"

definition applied_sum ::
  "(string \<rightharpoonup> real) \<Rightarrow> (string \<times> 'r) list \<Rightarrow> (string \<Rightarrow> 'r \<Rightarrow> real) \<Rightarrow> real" where
  "applied_sum nw rs f = foldl (+) 0 (map (\<lambda>(m, r). f m r * entry nw m) rs)"

text \<open>
  An analyzer and a detector with two models each and configured weights 4, 3, 1 and
  3, 1: all the numbers of a call on them are floats, and no operation on them rounds.
\<close>

definition weighted_pair :: sentiment_models where
  "weighted_pair =
     \<lparr>bert = None,
      vader = Some (\<lambda>text. Inr [''pos'' \<mapsto> 1 / 2, ''neg'' \<mapsto> 1 / 4, ''neu'' \<mapsto> 1 / 4,
                                 ''compound'' \<mapsto> 1 / 2]),
      textblob = Some (\<lambda>text. Inr (1 / 2, 1 / 2)),
      custom = Some [''bert'' \<mapsto> 4, ''vader'' \<mapsto> 3, ''textblob'' \<mapsto> 1]\<rparr>"

definition weighted_pair_results :: "(string \<times> model_result) list" where
  "weighted_pair_results =
     [(''vader'',
       \<lparr>sentiment = ''positive'', confidence = 1 / 2, model = ''vader'',
        scores = [''positive'' \<mapsto> 1 / 2, ''negative'' \<mapsto> 1 / 4, ''neutral'' \<mapsto> 1 / 4,
                  ''compound'' \<mapsto> 1 / 2]\<rparr>),
      (''textblob'',
       \<lparr>sentiment = ''positive'', confidence = 1 / 4, model = ''textblob'',
        scores = [''polarity'' \<mapsto> 1 / 2, ''subjectivity'' \<mapsto> 1 / 2]\<rparr>)]"

definition weighted_detectors :: emotion_models where
  "weighted_detectors =
     \<lparr>transformer = Some (\<lambda>text. Inr [(''joy'', 3 / 4), (''anger'', 1 / 4)]),
      rule_based = Some \<lparr>lexicon = [(''joy'', [''happy''])], stopwords = {}\<rparr>,
      custom_emotion = Some [''transformer'' \<mapsto> 3, ''rule-based'' \<mapsto> 1]\<rparr>"

text \<open>The scores of the six emotions of a result, in the order of \<open>emotions\<close>.\<close>

definition emotion_vector :: "error + (string \<rightharpoonup> real) \<Rightarrow> real list" where
  "emotion_vector r = (case r of Inl e \<Rightarrow> [] | Inr d \<Rightarrow> emotion_values d)"

text \<open>
  A dictionary of weights written as float literals, the weight that the float
  computation applies to a model, and the exact sum of the applied weights.
\<close>

definition as_double :: "(string \<rightharpoonup> real) \<Rightarrow> (string \<rightharpoonup> real)" where
  "as_double weights m = map_option double (weights m)"

definition applied_double :: "(string \<rightharpoonup> real) \<Rightarrow> string list \<Rightarrow> string \<Rightarrow> real option" where
  "applied_double weights available_models m =
     (case normalized_weights_double weights available_models of
        Inl e \<Rightarrow> None | Inr nw \<Rightarrow> nw m)"

definition applied_total_double :: "(string \<rightharpoonup> real) \<Rightarrow> string list \<Rightarrow> real option" where
  "applied_total_double weights available_models =
     (case normalized_weights_double weights available_models of
        Inl e \<Rightarrow> None | Inr nw \<Rightarrow> Some (sum_list (List.map_filter nw available_models)))"

section \<open>Basic facts\<close>

lemma and_then_simps [simp]:
  "and_then (Inl e) f = Inl e"
  "and_then (Inr x) f = f x"
  by (simp_all add: and_then_def)

lemma and_then_Inr_iff: "and_then m f = Inr y \<longleftrightarrow> (\<exists>x. m = Inr x \<and> f x = Inr y)"
  by (cases m) simp_all

lemma total_weight_Nil [simp]: "total_weight w [] = 0"
  by (simp add: total_weight_def)

lemma normalized_weights_Nil [simp]: "normalized_weights w [] = Inr Map.empty"
  by (simp add: normalized_weights_def)

lemma constant_scores_apply:
  "constant_scores v e = (if e \<in> set emotions then Some v else None)"
  by (simp add: constant_scores_def emotions_def)

lemma constant_scores_restrict [simp]: "constant_scores v |` set emotions = constant_scores v"
  by (rule ext) (simp add: restrict_map_def constant_scores_apply)

lemmas sentiment_eval =
  analyze_def analyze_with_custom_def analyze_with_ensemble_def ensemble_results_def
  add_result_def analyze_with_bert_def analyze_with_vader_def analyze_with_textblob_def
  getitem_def getindex_def ensemble_weights_def default_weights_def ensemble_of_results_def
  normalized_weights_def total_weight_def ensemble_result_def final_sentiment_def Let_def

section \<open>The ensembles without any model\<close>

lemma ensemble_results_none:
  "bert ms = None \<Longrightarrow> vader ms = None \<Longrightarrow> textblob ms = None \<Longrightarrow> ensemble_results ms text = Inr []"
  by (simp add: ensemble_results_def add_result_def)

lemma ensemble_of_results_Nil: "ensemble_of_results w [] = Inr neutral_default"
  by (simp add: ensemble_of_results_def ensemble_result_def final_sentiment_def neutral_default_def)

lemma emotion_results_none:
  "transformer es = None \<Longrightarrow> rule_based es = None \<Longrightarrow> emotion_results lib es text = Inr []"
  by (simp add: emotion_results_def add_result_def)

lemma emotions_of_results_Nil: "emotions_of_results w [] = Inr (constant_scores 0)"
  by (simp add: emotions_of_results_def)

text \<open>
  Claim C1. Whatever the weights are, when none of bert, vader and textblob is loaded the
  sentiment ensemble returns the label neutral with confidence 0 and the scores 0, 0, 0,
  and when neither the transformer nor the rule-based model is loaded the emotion
  ensemble returns the score 0 for each of the six emotions. Both return; neither raises.
  The same holds for the public operations that run the ensembles.
\<close>

theorem no_backend_degraded_default:
  assumes "bert ms = None" "vader ms = None" "textblob ms = None"
      and "transformer es = None" "rule_based es = None"
  shows "analyze_with_ensemble ms text = Inr neutral_default
       \<and> analyze ''all'' ms text = Inr neutral_default
       \<and> analyze ''custom'' ms text = Inr neutral_default
       \<and> detect_with_ensemble lib es text = Inr (constant_scores 0)
       \<and> detect lib ''all'' es text = Inr (constant_scores 0)
       \<and> detect lib ''custom'' es text = Inr (constant_scores 0)
       \<and> (\<forall>e. constant_scores 0 e = (if e \<in> set emotions then Some 0 else None))"
proof -
  have a: "analyze_with_ensemble ms text = Inr neutral_default"
    using assms(1-3)
    by (simp add: analyze_with_ensemble_def ensemble_results_none ensemble_of_results_Nil)
  have d: "detect_with_ensemble lib es text = Inr (constant_scores 0)"
    using assms(4,5)
    by (simp add: detect_with_ensemble_def emotion_results_none emotions_of_results_Nil)
  have "detect lib ''all'' es text = Inr (constant_scores 0)"
    using d by (simp add: detect_def detect_by_def dispatch_def own_methods_def)
  moreover have "detect lib ''custom'' es text = Inr (constant_scores 0)"
    using d by (simp add: detect_def detect_by_def dispatch_def own_methods_def detect_with_custom_def)
  moreover have "analyze ''all'' ms text = Inr neutral_default"
    using a by (simp add: analyze_def)
  moreover have "analyze ''custom'' ms text = Inr neutral_default"
    using a by (simp add: analyze_def analyze_with_custom_def)
  ultimately show ?thesis using a d by (simp add: constant_scores_apply)
qed

theorem no_backend_degraded_default_witness:
  "bert custom_only = None \<and> vader custom_only = None \<and> textblob custom_only = None
   \<and> transformer no_emotion_models = None \<and> rule_based no_emotion_models = None
   \<and> analyze ''custom'' custom_only ''good'' = Inr neutral_default
   \<and> detect whole_text ''custom'' no_emotion_models ''good'' = Inr (constant_scores 0)
   \<and> constant_scores 0 ''joy'' = Some 0"
  using no_backend_degraded_default [of custom_only no_emotion_models "''good''" whole_text]
  by (simp add: custom_only_def no_emotion_models_def emotions_def)

section \<open>The final sentiment\<close>

lemma final_sentiment_cases:
  "(fst (final_sentiment p n u) = ''positive'' \<longleftrightarrow> p > n \<and> p > u)
   \<and> (fst (final_sentiment p n u) = ''negative'' \<longleftrightarrow> n > p \<and> n > u)
   \<and> (fst (final_sentiment p n u) = ''neutral'' \<longleftrightarrow> \<not> (p > n \<and> p > u) \<and> \<not> (n > p \<and> n > u))
   \<and> snd (final_sentiment p n u) =
        (if fst (final_sentiment p n u) = ''positive'' then p
         else if fst (final_sentiment p n u) = ''negative'' then n else u)"
  by (auto simp add: final_sentiment_def)

lemma ensemble_of_results_scores:
  assumes "ensemble_of_results w rs = Inr a"
  shows "\<exists>p n u. scores a = [''positive'' \<mapsto> p, ''negative'' \<mapsto> n, ''neutral'' \<mapsto> u]
           \<and> sentiment a = fst (final_sentiment p n u)
           \<and> confidence a = snd (final_sentiment p n u)"
proof -
  from assms obtain nw s where s: "weighted_scores nw rs (0, 0, 0) = Inr s"
    and a: "a = ensemble_result rs s"
    by (auto simp add: ensemble_of_results_def and_then_Inr_iff)
  obtain p n u where "s = (p, n, u)" by (cases s) auto
  with a have "scores a = [''positive'' \<mapsto> p, ''negative'' \<mapsto> n, ''neutral'' \<mapsto> u]
           \<and> sentiment a = fst (final_sentiment p n u)
           \<and> confidence a = snd (final_sentiment p n u)"
    by (simp add: ensemble_result_def)
  then show ?thesis by blast
qed

text \<open>
  Claim C4. For every triple of combined scores the label is positive exactly when the
  positive score is strictly greater than the other two, negative exactly when the
  negative score is strictly greater than the other two, and neutral in every other
  case (ties and all zeros among them); the confidence is the score of the bucket that
  gives the label, for neutral the neutral score itself. Every result that the sentiment
  ensemble returns has its label and confidence from its three scores by this rule.
\<close>

theorem ensemble_label_rule:
  "(fst (final_sentiment p n u) = ''positive'' \<longleftrightarrow> p > n \<and> p > u)
   \<and> (fst (final_sentiment p n u) = ''negative'' \<longleftrightarrow> n > p \<and> n > u)
   \<and> (fst (final_sentiment p n u) = ''neutral'' \<longleftrightarrow> \<not> (p > n \<and> p > u) \<and> \<not> (n > p \<and> n > u))
   \<and> snd (final_sentiment p n u) =
        (if fst (final_sentiment p n u) = ''positive'' then p
         else if fst (final_sentiment p n u) = ''negative'' then n else u)
   \<and> (\<forall>a. analyze_with_ensemble ms text = Inr a \<longrightarrow>
         (\<exists>p' n' u'. scores a = [''positive'' \<mapsto> p', ''negative'' \<mapsto> n', ''neutral'' \<mapsto> u']
            \<and> sentiment a = fst (final_sentiment p' n' u')
            \<and> confidence a = snd (final_sentiment p' n' u')))"
proof -
  have "\<forall>a. analyze_with_ensemble ms text = Inr a \<longrightarrow>
         (\<exists>p' n' u'. scores a = [''positive'' \<mapsto> p', ''negative'' \<mapsto> n', ''neutral'' \<mapsto> u']
            \<and> sentiment a = fst (final_sentiment p' n' u')
            \<and> confidence a = snd (final_sentiment p' n' u'))"
    by (auto simp add: analyze_with_ensemble_def and_then_Inr_iff
          dest!: ensemble_of_results_scores)
  then show ?thesis using final_sentiment_cases [of p n u] by blast
qed

text \<open>
  The rule on the scenario of the specification: one model of three scores, reporting
  0.8, 0.1 and 0.1 with weight 1, gives the label positive with confidence 0.8.
\<close>

theorem ensemble_label_rule_witness:
  "fst (final_sentiment (4 / 5) (1 / 10) (1 / 10)) = ''positive''
   \<and> snd (final_sentiment (4 / 5) (1 / 10) (1 / 10)) = 4 / 5
   \<and> (\<exists>a. analyze_with_ensemble vader_only ''I love this'' = Inr a
          \<and> sentiment a = ''positive'' \<and> confidence a = 4 / 5)"
proof -
  obtain a where a: "analyze_with_ensemble vader_only ''I love this'' = Inr a"
    and pos: "score_of (Inr a) ''positive'' = Some (4 / 5)"
    and neg: "score_of (Inr a) ''negative'' = Some (1 / 10)"
    and neu: "score_of (Inr a) ''neutral'' = Some (1 / 10)"
    by (simp add: sentiment_eval vader_only_def score_of_def)
  from ensemble_label_rule [of "4 / 5" "1 / 10" "1 / 10" vader_only "''I love this''"] a
  obtain p' n' u' where
    sc: "scores a = [''positive'' \<mapsto> p', ''negative'' \<mapsto> n', ''neutral'' \<mapsto> u']"
    and l: "sentiment a = fst (final_sentiment p' n' u')"
    and c: "confidence a = snd (final_sentiment p' n' u')"
    and r: "fst (final_sentiment (4 / 5) (1 / 10) (1 / 10)) = ''positive''"
           "snd (final_sentiment (4 / 5) (1 / 10) (1 / 10)) = 4 / 5"
    by auto
  from sc pos neg neu have "p' = 4 / 5" "n' = 1 / 10" "u' = 1 / 10"
    by (simp_all add: score_of_def)
  with l c r a show ?thesis by simp
qed

section \<open>A model that raises\<close>

text \<open>
  Claim C2, as the code has it. When the call of a loaded model raises inside the
  sentiment ensemble, the ensemble does not leave that model out: it raises, and so do
  \<open>analyze\<close> for the model types \<open>all\<close> and \<open>custom\<close>. The exception is the one of a loaded
  model whose call raised.
\<close>

theorem backend_failure_propagates:
  assumes "(bert ms \<noteq> None \<and> isl (analyze_with_bert ms text))
         \<or> (vader ms \<noteq> None \<and> isl (analyze_with_vader ms text))
         \<or> (textblob ms \<noteq> None \<and> isl (analyze_with_textblob ms text))"
  shows "\<exists>e. analyze_with_ensemble ms text = Inl e
            \<and> analyze ''all'' ms text = Inl e
            \<and> analyze ''custom'' ms text = Inl e
            \<and> ((bert ms \<noteq> None \<and> analyze_with_bert ms text = Inl e)
               \<or> (vader ms \<noteq> None \<and> analyze_with_vader ms text = Inl e)
               \<or> (textblob ms \<noteq> None \<and> analyze_with_textblob ms text = Inl e))"
proof -
  have "\<exists>e. ensemble_results ms text = Inl e
            \<and> ((bert ms \<noteq> None \<and> analyze_with_bert ms text = Inl e)
               \<or> (vader ms \<noteq> None \<and> analyze_with_vader ms text = Inl e)
               \<or> (textblob ms \<noteq> None \<and> analyze_with_textblob ms text = Inl e))"
    using assms
    by (cases "analyze_with_bert ms text"; cases "analyze_with_vader ms text";
        cases "analyze_with_textblob ms text")
       (auto simp add: ensemble_results_def add_result_def)
  then obtain e where e: "ensemble_results ms text = Inl e"
    and w: "(bert ms \<noteq> None \<and> analyze_with_bert ms text = Inl e)
               \<or> (vader ms \<noteq> None \<and> analyze_with_vader ms text = Inl e)
               \<or> (textblob ms \<noteq> None \<and> analyze_with_textblob ms text = Inl e)"
    by blast
  have "analyze_with_ensemble ms text = Inl e"
    using e by (simp add: analyze_with_ensemble_def)
  then show ?thesis using w by (auto simp add: analyze_def analyze_with_custom_def)
qed

theorem backend_failure_propagates_witness:
  "vader failing_vader \<noteq> None \<and> isl (analyze_with_vader failing_vader ''good'')
   \<and> analyze_with_ensemble failing_vader ''good'' = Inl (LibraryError ''vader failed'')
   \<and> analyze ''all'' failing_vader ''good'' = Inl (LibraryError ''vader failed'')"
  using backend_failure_propagates [of failing_vader "''good''"]
  by (simp add: failing_vader_def analyze_with_vader_def analyze_with_textblob_def
        analyze_with_bert_def)

text \<open>
  The claim as the specification states it fails: vader raises, textblob is loaded and
  would return, and the ensemble raises instead of returning a result from textblob.
\<close>

theorem backend_failure_counterexample:
  "textblob failing_vader \<noteq> None
   \<and> \<not> isl (analyze_with_textblob failing_vader ''good'')
   \<and> analyze ''all'' failing_vader ''good'' = Inl (LibraryError ''vader failed'')"
  by (simp add: sentiment_eval failing_vader_def)


section \<open>The weights applied by the ensembles\<close>

lemma normalized_weights_ok:
  "total_weight w av \<noteq> 0 \<Longrightarrow>
   normalized_weights w av =
     Inr (\<lambda>m. if m \<in> set av then map_option (\<lambda>x. x / total_weight w av) (w m) else None)"
  by (simp add: normalized_weights_def)

lemma map_filter_scaled:
  "set xs \<subseteq> set av \<Longrightarrow>
   sum_list (List.map_filter (\<lambda>m. if m \<in> set av then map_option (\<lambda>x. x / T) (w m) else None) xs)
     = sum_list (List.map_filter w xs) / (T::real)"
  by (induction xs) (auto simp add: List.map_filter_simps add_divide_distrib split: option.splits)

lemma normalized_sum:
  "total_weight w av \<noteq> 0 \<Longrightarrow>
   sum_list (List.map_filter
      (\<lambda>m. if m \<in> set av then map_option (\<lambda>x. x / total_weight w av) (w m) else None) av) = 1"
  by (simp add: map_filter_scaled) (simp add: total_weight_def)

lemma map_filter_agree:
  "(\<forall>m\<in>set xs. w m = w' m) \<Longrightarrow> List.map_filter w xs = List.map_filter w' xs"
  by (induction xs) (auto simp add: List.map_filter_simps split: option.splits)

lemma normalized_weights_agree:
  assumes "\<forall>m\<in>set av. w m = w' m"
  shows "normalized_weights w av = normalized_weights w' av"
proof -
  have t: "total_weight w av = total_weight w' av"
    using map_filter_agree [OF assms] by (simp add: total_weight_def)
  show ?thesis
    using assms by (simp add: normalized_weights_def t cong: if_cong)
qed

lemma ensemble_results_keys:
  assumes "ensemble_results ms text = Inr rs"
  shows "map fst rs = loaded_models ms"
  using assms
  by (cases "analyze_with_bert ms text"; cases "analyze_with_vader ms text";
      cases "analyze_with_textblob ms text")
     (auto simp add: ensemble_results_def add_result_def loaded_models_def split: if_splits)

lemma emotion_results_keys:
  assumes "emotion_results lib es text = Inr rs"
  shows "map fst rs = loaded_emotion_models es"
  using assms
  by (cases "detect_with_transformer lib es text"; cases "detect_with_rule_based lib es text")
     (auto simp add: emotion_results_def add_result_def loaded_emotion_models_def split: if_splits)

lemma ensemble_results_custom [simp]:
  "ensemble_results (ms\<lparr>custom := c\<rparr>) text = ensemble_results ms text"
  by (simp add: ensemble_results_def analyze_with_bert_def analyze_with_vader_def
        analyze_with_textblob_def)

lemma detect_with_rule_based_custom [simp]:
  "detect_with_rule_based lib (es\<lparr>custom_emotion := c\<rparr>) text = detect_with_rule_based lib es text"
  by (simp add: detect_with_rule_based_def rule_based_scores_def)

lemma detect_with_transformer_custom [simp]:
  "detect_with_transformer lib (es\<lparr>custom_emotion := c\<rparr>) text = detect_with_transformer lib es text"
  by (simp add: detect_with_transformer_def transformer_scores_def split: sum.splits)

lemma emotion_results_custom [simp]:
  "emotion_results lib (es\<lparr>custom_emotion := c\<rparr>) text = emotion_results lib es text"
  by (simp add: emotion_results_def)

lemma ensemble_of_results_agree:
  "\<forall>m\<in>set (map fst rs). w m = w' m \<Longrightarrow> ensemble_of_results w rs = ensemble_of_results w' rs"
  by (simp only: ensemble_of_results_def normalized_weights_agree [of "map fst rs" w w'])

lemma emotions_of_results_agree:
  "\<forall>m\<in>set (map fst rs). w m = w' m \<Longrightarrow> emotions_of_results w rs = emotions_of_results w' rs"
  by (simp only: emotions_of_results_def normalized_weights_agree [of "map fst rs" w w'])

lemma vader_textblob_weights_eval:
  "normalized_weights default_weights [''vader'', ''textblob''] = Inr vader_textblob_weights"
  by (auto simp add: normalized_weights_def total_weight_def default_weights_def
        vader_textblob_weights_def List.map_filter_simps)

lemma and_then_assoc:
  "and_then (and_then m f) g = and_then m (\<lambda>x. and_then (f x) g)"
  by (cases m) simp_all

lemma and_then_if:
  "and_then (if c then x else y) g = (if c then and_then x g else and_then y g)"
  by simp

lemma weighted_scores_Cons:
  "weighted_scores nw ((m, r) # rest) (a, b, c) =
     and_then (entry_scores nw m r)
       (\<lambda>(dp, dn, du). weighted_scores nw rest (a + dp, b + dn, c + du))"
  by (simp add: entry_scores_def and_then_assoc and_then_if cong: if_cong)

lemma entry_scores_three_way:
  assumes "usable m r" "nw m = Some w"
  shows "entry_scores nw m r
           = Inr (fst (three_way m r) * w, fst (snd (three_way m r)) * w,
                  snd (snd (three_way m r)) * w)"
proof -
  consider "m = ''bert''" | "m = ''vader''" | "m = ''textblob''"
    | "m \<noteq> ''bert''" "m \<noteq> ''vader''" "m \<noteq> ''textblob''"
    by blast
  then show ?thesis
  proof cases
    case 1
    with assms show ?thesis
      by (auto simp add: entry_scores_def usable_def three_way_def getitem_def entry_def)
  next
    case 2
    with assms show ?thesis
      by (auto simp add: entry_scores_def usable_def three_way_def getitem_def entry_def)
  next
    case 3
    with assms show ?thesis
      by (auto simp add: entry_scores_def usable_def three_way_def getitem_def entry_def)
  next
    case 4
    with assms show ?thesis
      by (simp add: entry_scores_def three_way_def)
  qed
qed

lemma weighted_scores_closed:
  assumes "\<forall>(m, r)\<in>set rs. usable m r \<and> nw m \<noteq> None"
  shows "weighted_scores nw rs (a, b, c)
           = Inr (foldl (+) a (map (\<lambda>(m, r). fst (three_way m r) * entry nw m) rs),
                  foldl (+) b (map (\<lambda>(m, r). fst (snd (three_way m r)) * entry nw m) rs),
                  foldl (+) c (map (\<lambda>(m, r). snd (snd (three_way m r)) * entry nw m) rs))"
  using assms
proof (induction rs arbitrary: a b c)
  case Nil
  show ?case by simp
next
  case (Cons x rs)
  obtain m r where x: "x = (m, r)" by (cases x) auto
  from Cons.prems x obtain w where u: "usable m r" and w: "nw m = Some w" by auto
  from Cons.prems have rest: "\<forall>(m, r)\<in>set rs. usable m r \<and> nw m \<noteq> None" by simp
  show ?case
    unfolding x weighted_scores_Cons entry_scores_three_way [of m r nw w, OF u w]
    by (simp add: Cons.IH [OF rest] entry_def w del: weighted_scores.simps)
qed

lemma analyze_with_bert_usable: "analyze_with_bert ms text = Inr r \<Longrightarrow> usable ''bert'' r"
  by (auto simp add: analyze_with_bert_def usable_def and_then_Inr_iff
        split: option.splits prod.splits)

lemma analyze_with_vader_usable: "analyze_with_vader ms text = Inr r \<Longrightarrow> usable ''vader'' r"
  by (auto simp add: analyze_with_vader_def usable_def and_then_Inr_iff Let_def
        split: option.splits)

lemma analyze_with_textblob_usable:
  "analyze_with_textblob ms text = Inr r \<Longrightarrow> usable ''textblob'' r"
  by (auto simp add: analyze_with_textblob_def usable_def and_then_Inr_iff Let_def
        split: option.splits prod.splits)

lemma ensemble_results_usable:
  assumes "ensemble_results ms text = Inr rs"
  shows "\<forall>(m, r)\<in>set rs. usable m r"
  using assms analyze_with_bert_usable [of ms "text"] analyze_with_vader_usable [of ms "text"]
    analyze_with_textblob_usable [of ms "text"]
  by (cases "analyze_with_bert ms text"; cases "analyze_with_vader ms text";
      cases "analyze_with_textblob ms text")
     (auto simp add: ensemble_results_def add_result_def split: if_splits)

lemma distinct_emotions: "distinct emotions"
  by (simp add: emotions_def)

lemma add_emotions_closed:
  assumes "nw m = Some w" "distinct es" "set es \<subseteq> E"
  shows "add_emotions nw m result es (\<lambda>e. if e \<in> E then Some (g e) else None)
           = Inr (\<lambda>e. if e \<in> E
                       then Some (if e \<in> set es then g e + entry result e * w else g e)
                       else None)"
  using assms(2,3)
proof (induction es arbitrary: g)
  case Nil
  show ?case by (simp cong: if_cong)
next
  case (Cons e0 es)
  from Cons.prems have d: "distinct es" and s: "set es \<subseteq> E" and e0: "e0 \<in> E" "e0 \<notin> set es"
    by auto
  show ?case
  proof (cases "result e0")
    case None
    have "(\<lambda>e. if e \<in> E then Some (if e \<in> set es then g e + entry result e * w else g e)
                else None)
        = (\<lambda>e. if e \<in> E
                then Some (if e \<in> set (e0 # es) then g e + entry result e * w else g e)
                else None)"
      using None by (auto simp add: entry_def)
    then show ?thesis using None Cons.IH [OF d s, of g] by simp
  next
    case (Some v)
    let ?g = "g(e0 := g e0 + v * w)"
    have u: "(\<lambda>e. if e \<in> E then Some (g e) else None)(e0 \<mapsto> g e0 + v * w)
               = (\<lambda>e. if e \<in> E then Some (?g e) else None)"
      using e0 by auto
    have "(\<lambda>e. if e \<in> E then Some (if e \<in> set es then ?g e + entry result e * w else ?g e)
                else None)
        = (\<lambda>e. if e \<in> E
                then Some (if e \<in> set (e0 # es) then g e + entry result e * w else g e)
                else None)"
      using Some e0 by (auto simp add: entry_def)
    then show ?thesis
      using Some e0 assms(1) Cons.IH [OF d s, of ?g]
      by (simp add: getitem_def u)
  qed
qed

lemma weighted_emotions_closed:
  assumes "\<forall>m\<in>set (map fst rs). nw m \<noteq> None"
  shows "weighted_emotions nw rs (\<lambda>e. if e \<in> set emotions then Some (g e) else None)
           = Inr (\<lambda>e. if e \<in> set emotions
                       then Some (foldl (+) (g e) (map (\<lambda>(m, r). entry r e * entry nw m) rs))
                       else None)"
  using assms
proof (induction rs arbitrary: g)
  case Nil
  show ?case by (simp cong: if_cong)
next
  case (Cons x rs)
  obtain m r where x: "x = (m, r)" by (cases x) auto
  from Cons.prems x obtain w where w: "nw m = Some w" by auto
  from Cons.prems have rest: "\<forall>m\<in>set (map fst rs). nw m \<noteq> None" by simp
  have a: "add_emotions nw m r emotions (\<lambda>e. if e \<in> set emotions then Some (g e) else None)
             = Inr (\<lambda>e. if e \<in> set emotions then Some (g e + entry r e * w) else None)"
    using add_emotions_closed
            [where nw = nw and m = m and w = w and es = emotions and E = "set emotions"
               and result = r and g = g, OF w distinct_emotions subset_refl]
    by (simp cong: if_cong)
  have em: "entry nw m = w" by (simp add: entry_def w)
  show ?case
    unfolding x
    by (simp add: a Cons.IH [OF rest, of "\<lambda>e. g e + entry r e * w"] em cong: if_cong)
qed

lemma weighted_pair_results_eval:
  "ensemble_results weighted_pair ''good'' = Inr weighted_pair_results"
  by (simp add: ensemble_results_def add_result_def analyze_with_vader_def
        analyze_with_textblob_def getitem_def weighted_pair_def weighted_pair_results_def
        Let_def)

lemma weighted_pair_weights_eval:
  "normalized_weights [''bert'' \<mapsto> 4, ''vader'' \<mapsto> 3, ''textblob'' \<mapsto> 1] [''vader'', ''textblob'']
     = Inr vader_textblob_weights"
  by (auto simp add: normalized_weights_def total_weight_def vader_textblob_weights_def
        List.map_filter_simps)

lemma weighted_detectors_transformer:
  "\<exists>d. detect_with_transformer whole_text weighted_detectors ''happy'' = Inr d
       \<and> map d emotions = [Some (3 / 4), Some (1 / 4), Some 0, Some 0, Some 0, Some 0]"
  by (simp add: detect_with_transformer_def transformer_scores_def weighted_detectors_def
        emotions_def Let_def)

lemma weighted_detectors_rule_based:
  "\<exists>d. detect_with_rule_based whole_text weighted_detectors ''happy'' = Inr d
       \<and> map d emotions = [Some 1, Some 0, Some 0, Some 0, Some 0, Some 0]"
  by (simp add: detect_with_rule_based_def rule_based_scores_def weighted_detectors_def
        whole_text_def emotions_def emotion_values_def getitem_def List.map_filter_simps Let_def)




section \<open>What textblob adds to the sums\<close>

lemma weighted_scores_from_zero:
  "weighted_scores nw rs (a, b, c) = add_to (a, b, c) (weighted_scores nw rs (0, 0, 0))"
proof (induction rs arbitrary: a b c)
  case Nil
  show ?case by (simp add: add_to_def)
next
  case (Cons x rs)
  obtain m r where x: "x = (m, r)" by (cases x) auto
  show ?case
  proof (cases "entry_scores nw m r")
    case (Inl e)
    then show ?thesis by (simp add: x weighted_scores_Cons add_to_def del: weighted_scores.simps)
  next
    case (Inr d)
    obtain dp dn du where d: "d = (dp, dn, du)" by (cases d) auto
    have l: "weighted_scores nw (x # rs) (a, b, c)
               = add_to (a + dp, b + dn, c + du) (weighted_scores nw rs (0, 0, 0))"
      using Cons.IH [of "a + dp" "b + dn" "c + du"] by (simp add: x weighted_scores_Cons Inr d del: weighted_scores.simps)
    have r: "weighted_scores nw (x # rs) (0, 0, 0)
               = add_to (dp, dn, du) (weighted_scores nw rs (0, 0, 0))"
      using Cons.IH [of dp dn du] by (simp add: x weighted_scores_Cons Inr d del: weighted_scores.simps)
    show ?thesis
      unfolding l r by (cases "weighted_scores nw rs (0, 0, 0)") (auto simp add: add_to_def)
  qed
qed

lemma weighted_scores_append:
  "weighted_scores nw (xs @ ys) acc = and_then (weighted_scores nw xs acc) (weighted_scores nw ys)"
proof (induction xs arbitrary: acc)
  case Nil
  show ?case by simp
next
  case (Cons x xs)
  obtain m r where x: "x = (m, r)" by (cases x) auto
  obtain a b c where acc: "acc = (a, b, c)" by (cases acc) auto
  show ?case
    by (cases "entry_scores nw m r")
       (auto simp add: x acc weighted_scores_Cons Cons.IH simp del: weighted_scores.simps)
qed

lemma normalized_weights_member:
  assumes "normalized_weights weights av = Inr nw" "m \<in> set av" "weights m = Some w0"
  shows "nw m = Some (w0 / total_weight weights av)"
  using assms by (auto simp add: normalized_weights_def split: if_splits)

text \<open>
  Claim C9, as the code has it. The weight applied to textblob is
  \<open>normalized_weights[model]\<close>, its configured weight divided by the sum of the
  configured weights of the available models. In a call of the ensemble in which
  textblob takes part with polarity \<open>p\<close> and this applied weight \<open>w\<close>, the three sums are
  the sums without the textblob entry (with the same applied weights) plus \<open>p * w\<close>
  on the positive score if \<open>p > 0\<close>, plus \<open>|p| * w\<close> on the negative score if \<open>p < 0\<close>,
  plus \<open>w\<close> on the neutral score if \<open>p = 0\<close>, and nothing elsewhere.
\<close>

theorem textblob_contribution:
  assumes "normalized_weights weights (map fst (rs1 @ (''textblob'', r) # rs2)) = Inr nw"
      and "weights ''textblob'' = Some w0"
      and "scores r ''polarity'' = Some p"
      and "weighted_scores nw (rs1 @ (''textblob'', r) # rs2) (0, 0, 0) = Inr (pos, neg, neu)"
  shows "\<exists>w pos' neg' neu'.
           nw ''textblob'' = Some w
         \<and> w = w0 / total_weight weights (map fst (rs1 @ (''textblob'', r) # rs2))
         \<and> weighted_scores nw (rs1 @ rs2) (0, 0, 0) = Inr (pos', neg', neu')
         \<and> (pos, neg, neu) =
             (if p > 0 then (pos' + p * w, neg', neu')
              else if p < 0 then (pos', neg' + \<bar>p\<bar> * w, neu')
              else (pos', neg', neu' + w))"
proof -
  let ?w = "w0 / total_weight weights (map fst (rs1 @ (''textblob'', r) # rs2))"
  have w: "nw ''textblob'' = Some ?w"
    using assms(1,2) by (intro normalized_weights_member) simp_all
  let ?d = "if p > 0 then (p * ?w, 0, 0) else if p < 0 then (0, \<bar>p\<bar> * ?w, 0) else (0, 0, ?w)"
  have e: "entry_scores nw ''textblob'' r = Inr ?d"
    using w assms(3) by (simp add: entry_scores_def getitem_def)
  obtain dp dn du where d: "?d = (dp, dn, du)" by (cases ?d) auto
  from assms(4) obtain a b c where 1: "weighted_scores nw rs1 (0, 0, 0) = Inr (a, b, c)"
    and 2: "weighted_scores nw ((''textblob'', r) # rs2) (a, b, c) = Inr (pos, neg, neu)"
    by (auto simp add: weighted_scores_append and_then_Inr_iff)
  from 2 have 3: "weighted_scores nw rs2 (a + dp, b + dn, c + du) = Inr (pos, neg, neu)"
    by (simp add: weighted_scores_Cons e d del: weighted_scores.simps)
  then obtain x y z where 4: "weighted_scores nw rs2 (0, 0, 0) = Inr (x, y, z)"
    and 5: "pos = a + dp + x" "neg = b + dn + y" "neu = c + du + z"
    by (subst (asm) weighted_scores_from_zero) (auto simp add: add_to_def split: sum.splits)
  have 6: "weighted_scores nw (rs1 @ rs2) (0, 0, 0) = Inr (a + x, b + y, c + z)"
    by (simp add: weighted_scores_append 1)
       (subst weighted_scores_from_zero, simp add: 4 add_to_def)
  have "(pos, neg, neu) =
             (if p > 0 then ((a + x) + p * ?w, b + y, c + z)
              else if p < 0 then (a + x, (b + y) + \<bar>p\<bar> * ?w, c + z)
              else (a + x, b + y, (c + z) + ?w))"
    using 5 d by (auto split: if_splits)
  with w 6 show ?thesis by blast
qed

theorem textblob_contribution_witness:
  "normalized_weights default_weights
      (map fst ([(''vader'', vader_result)] @ (''textblob'', textblob_result) # []))
     = Inr vader_textblob_weights
   \<and> default_weights ''textblob'' = Some (1 / 10)
   \<and> scores textblob_result ''polarity'' = Some (1 / 2)
   \<and> weighted_scores vader_textblob_weights
        ([(''vader'', vader_result)] @ (''textblob'', textblob_result) # []) (0, 0, 0)
       = Inr (29 / 40, 3 / 40, 3 / 40)
   \<and> vader_textblob_weights ''textblob'' = Some (1 / 4)
   \<and> weighted_scores vader_textblob_weights ([(''vader'', vader_result)] @ []) (0, 0, 0)
       = Inr (3 / 5, 3 / 40, 3 / 40)
   \<and> (29 / 40 :: real) = 3 / 5 + 1 / 2 * (1 / 4)"
proof -
  have 1: "normalized_weights default_weights
      (map fst ([(''vader'', vader_result)] @ (''textblob'', textblob_result) # []))
     = Inr vader_textblob_weights"
    by (simp add: vader_textblob_weights_eval)
  have 2: "default_weights ''textblob'' = Some (1 / 10)" by (simp add: default_weights_def)
  have 3: "scores textblob_result ''polarity'' = Some (1 / 2)" by (simp add: textblob_result_def)
  have 4: "weighted_scores vader_textblob_weights
        ([(''vader'', vader_result)] @ (''textblob'', textblob_result) # []) (0, 0, 0)
       = Inr (29 / 40, 3 / 40, 3 / 40)"
    by (simp add: vader_textblob_weights_def vader_result_def textblob_result_def getitem_def)
  have 5: "total_weight default_weights [''vader'', ''textblob''] = 2 / 5"
    by (simp add: total_weight_def default_weights_def)
  from textblob_contribution [OF 1 2 3 4]
  have "weighted_scores vader_textblob_weights ([(''vader'', vader_result)] @ []) (0, 0, 0)
       = Inr (3 / 5, 3 / 40, 3 / 40)"
    by (auto simp add: 5 simp del: weighted_scores.simps)
  with 1 2 3 4 show ?thesis by (simp add: vader_textblob_weights_def)
qed

text \<open>
  With the configured weight itself the claim fails: textblob alone, with the configured
  weight 0.1 and polarity 0, gives the neutral score 1, not 0.1.
\<close>

theorem textblob_own_weight_counterexample:
  "ensemble_weights textblob_only ''textblob'' = Some (1 / 10)
   \<and> score_of (analyze_with_ensemble textblob_only ''ok'') ''neutral'' = Some 1
   \<and> score_of (analyze_with_ensemble textblob_only ''ok'') ''neutral''
       \<noteq> ensemble_weights textblob_only ''textblob''"
  by (simp add: sentiment_eval textblob_only_def score_of_def)

section \<open>Starting a stream\<close>

text \<open>
  Claim C5, on the code: \<open>start_stream\<close> with the source \<open>rss\<close>, which is none of
  twitter, reddit, kafka and custom, raises the error for an unknown source, but by then
  it has stored the stream, with the status initializing, and an empty buffer under the
  new identifier; they stay in the tables.
\<close>

theorem start_stream_unknown_source:
  "active_streams init_manager ''id-1'' = None
   \<and> fst (start_stream init_manager ''id-1'' ''10:00'' launch_ok ''rss'' ''news'' 60)
       = Inl (ValueError ''Unknown source: rss'')
   \<and> active_streams (snd (start_stream init_manager ''id-1'' ''10:00'' launch_ok ''rss'' ''news'' 60))
        ''id-1''
       = Some \<lparr>stream_id = ''id-1'', source = ''rss'', query = ''news'', duration = 60,
               start_time = ''10:00'', status = ''initializing'', data_count = 0,
               stream_error = None\<rparr>
   \<and> stream_results (snd (start_stream init_manager ''id-1'' ''10:00'' launch_ok ''rss'' ''news'' 60))
        ''id-1'' = Some []"
  by (simp add: start_stream_def init_manager_def Let_def)

section \<open>The status of a stream\<close>

lemma start_stream_other_status:
  assumes "active_streams m sid = Some s" "sid' \<noteq> sid"
  shows "status_of (snd (start_stream m sid' now launch src q d)) sid = Some (status s)"
  using assms
  by (cases "launch src")
     (simp_all add: start_stream_def start_source_stream_def update_stream_def status_of_def
        Let_def)

text \<open>
  Claim C6, as the code has it. The writes of the status are not guarded. For a stream
  that is in the table, \<open>stop_stream\<close> writes stopped whatever the status was, and the
  end of the task writes completed, or error with the message when the task raised,
  whatever the status was; the rest of the manager is unchanged. Buffering an item,
  processing and the registration of a callback do not write the status, and no
  operation on another stream does: neither stopping it, nor the end of its task, nor
  the start of a stream under another identifier.
\<close>

theorem status_writes_unconditional:
  assumes "active_streams m sid = Some s"
  shows "stop_stream m sid
           = (Inr (), m\<lparr>active_streams := (active_streams m)(sid \<mapsto> s\<lparr>status := ''stopped''\<rparr>)\<rparr>)
       \<and> run_stream_end m sid (Inr ())
           = (Inr (), m\<lparr>active_streams := (active_streams m)(sid \<mapsto> s\<lparr>status := ''completed''\<rparr>)\<rparr>)
       \<and> run_stream_end m sid (Inl msg)
           = (Inr (), m\<lparr>active_streams := (active_streams m)(sid \<mapsto>
                          s\<lparr>status := ''error'', stream_error := Some msg\<rparr>)\<rparr>)
       \<and> status_of (snd (stop_stream m sid)) sid = Some ''stopped''
       \<and> status_of (snd (run_stream_end m sid (Inr ()))) sid = Some ''completed''
       \<and> status_of (snd (run_stream_end m sid (Inl msg))) sid = Some ''error''
       \<and> status_of (process_stream_data m sid' now line) sid = Some (status s)
       \<and> status_of (snd (process_stream m sid' sa tp)) sid = Some (status s)
       \<and> status_of (snd (register_callback m sid' cb)) sid = Some (status s)
       \<and> (sid' \<noteq> sid \<longrightarrow>
             status_of (snd (stop_stream m sid')) sid = Some (status s)
           \<and> status_of (snd (run_stream_end m sid' outcome)) sid = Some (status s)
           \<and> status_of (snd (start_stream m sid' now launch src q d)) sid = Some (status s))"
  using assms start_stream_other_status [OF assms, of sid' now launch src q d]
  by (auto simp add: stop_stream_def run_stream_end_def update_stream_def status_of_def
        process_stream_data_def process_stream_def register_callback_def Let_def
        split: option.splits sum.splits)

theorem status_writes_unconditional_witness:
  "active_streams completed ''id-1''
     = Some \<lparr>stream_id = ''id-1'', source = ''custom'', query = ''news'', duration = 1,
             start_time = ''10:00'', status = ''completed'', data_count = 0,
             stream_error = None\<rparr>
   \<and> status_of (snd (stop_stream completed ''id-1'')) ''id-1'' = Some ''stopped''
   \<and> status_of (snd (run_stream_end completed ''id-1'' (Inl ''connection lost''))) ''id-1''
       = Some ''error''
   \<and> status_of (snd (start_stream completed ''id-2'' ''10:05'' launch_ok ''kafka'' ''news'' 0))
        ''id-1'' = Some ''completed''"
proof -
  have 1: "active_streams completed ''id-1''
     = Some \<lparr>stream_id = ''id-1'', source = ''custom'', query = ''news'', duration = 1,
             start_time = ''10:00'', status = ''completed'', data_count = 0,
             stream_error = None\<rparr>"
    by (simp add: completed_def started_def start_stream_def start_source_stream_def
          run_stream_end_def update_stream_def init_manager_def launch_ok_def Let_def)
  have ne: "''id-2'' \<noteq> ''id-1''" by simp
  from status_writes_unconditional
         [OF 1, where msg = "''connection lost''" and sid' = "''id-2''" and now = "''10:05''"
            and launch = launch_ok and src = "''kafka''" and q = "''news''" and d = 0
            and line = "''good''" and sa = picky_analyzer and tp = id and cb = quiet_callback
            and outcome = "Inr ()"] ne
  have a: "status_of (snd (stop_stream completed ''id-1'')) ''id-1'' = Some ''stopped''"
    and b: "status_of (snd (run_stream_end completed ''id-1'' (Inl ''connection lost'')))
              ''id-1'' = Some ''error''"
    and c: "status_of (snd (start_stream completed ''id-2'' ''10:05'' launch_ok ''kafka''
              ''news'' 0)) ''id-1''
            = Some (status \<lparr>stream_id = ''id-1'', source = ''custom'', query = ''news'',
                duration = 1, start_time = ''10:00'', status = ''completed'', data_count = 0,
                stream_error = None\<rparr>)"
    by blast+
  show ?thesis using 1 a b c by simp
qed

text \<open>
  The claim as the specification states it fails: stopping a completed stream makes it
  stopped, and a task that ends after its stream was stopped makes it completed.
\<close>

theorem terminal_status_counterexample:
  "status_of completed ''id-1'' = Some ''completed''
   \<and> status_of (snd (stop_stream completed ''id-1'')) ''id-1'' = Some ''stopped''
   \<and> status_of (snd (stop_stream started ''id-1'')) ''id-1'' = Some ''stopped''
   \<and> status_of (snd (run_stream_end (snd (stop_stream started ''id-1'')) ''id-1'' (Inr ())))
        ''id-1'' = Some ''completed''"
  by (simp add: completed_def started_def start_stream_def start_source_stream_def
        run_stream_end_def update_stream_def init_manager_def launch_ok_def Let_def
        stop_stream_def status_of_def)

section \<open>Processing the buffer\<close>

lemma scored_processed: "\<not> fails tp sa it \<Longrightarrow> processed (scored tp sa it)"
  by (auto simp add: fails_def scored_def split: sum.splits)

lemma process_items_snd:
  "snd (process_items tp sa items)
     = map (scored tp sa) (takeWhile (\<lambda>it. \<not> fails tp sa it) items)
       @ dropWhile (\<lambda>it. \<not> fails tp sa it) items"
  by (induction items)
     (auto simp add: fails_def scored_def Let_def split: sum.splits prod.splits)

lemma process_items_fst:
  "fst (process_items tp sa items)
     = map (\<lambda>it. tp (item_text it))
         (filter (\<lambda>it. \<not> processed it) (takeWhile (\<lambda>it. \<not> fails tp sa it) items)
          @ take 1 (dropWhile (\<lambda>it. \<not> fails tp sa it) items))"
  by (induction items)
     (auto simp add: fails_def Let_def split: sum.splits prod.splits)

lemma process_items_processed_prefix:
  "\<forall>it\<in>set ps. processed it \<Longrightarrow>
   process_items tp sa (ps @ rest)
     = (fst (process_items tp sa rest), ps @ snd (process_items tp sa rest))"
  by (induction ps) (auto simp add: Let_def split: prod.splits)

lemma process_items_at_failure:
  "process_items tp sa (dropWhile (\<lambda>it. \<not> fails tp sa it) items)
     = (map (\<lambda>it. tp (item_text it)) (take 1 (dropWhile (\<lambda>it. \<not> fails tp sa it) items)),
        dropWhile (\<lambda>it. \<not> fails tp sa it) items)"
proof (cases "dropWhile (\<lambda>it. \<not> fails tp sa it) items")
  case Nil
  show ?thesis unfolding Nil by simp
next
  case (Cons it rest)
  then have "fails tp sa it"
    by (metis (mono_tags, lifting) hd_dropWhile list.sel(1) list.distinct(1))
  then show ?thesis using Cons by (auto simp add: fails_def Let_def split: sum.splits)
qed

lemma process_items_again:
  "process_items tp sa (snd (process_items tp sa items))
     = (map (\<lambda>it. tp (item_text it)) (take 1 (dropWhile (\<lambda>it. \<not> fails tp sa it) items)),
        snd (process_items tp sa items))"
proof -
  have "\<forall>it\<in>set (map (scored tp sa) (takeWhile (\<lambda>it. \<not> fails tp sa it) items)). processed it"
    by (auto dest!: set_takeWhileD simp add: scored_processed)
  then show ?thesis
    by (simp add: process_items_snd process_items_processed_prefix process_items_at_failure)
qed




section \<open>A stream that is not in the table\<close>

lemma unknown_stream_operations:
  assumes "active_streams m sid = None" "stream_results m sid = None"
  shows "get_stream_status m sid = Inl (not_found sid)"
    and "get_stream_results m sid limit processed_only = Inl (not_found sid)"
    and "stop_stream m sid = (Inl (not_found sid), m)"
    and "process_stream m sid sa tp = (Inr (), m)"
    and "register_callback m sid cb
           = (Inr (), m\<lparr>stream_callbacks := (stream_callbacks m)(sid \<mapsto>
                (case stream_callbacks m sid of None \<Rightarrow> [] | Some cbs \<Rightarrow> cbs) @ [cb])\<rparr>)"
  using assms
  by (simp_all add: get_stream_status_def get_stream_results_def stop_stream_def
        process_stream_def register_callback_def)

text \<open>
  Claim C8, on the code: for the identifier \<open>other\<close>, which is in neither table of a new
  manager, \<open>get_stream_status\<close>, \<open>get_stream_results\<close> and \<open>stop_stream\<close> raise the error for a
  stream that is not found and leave the manager as it is; \<open>process_stream\<close> raises the same
  error inside its own \<open>try\<close> block and returns, with the manager as it is;
  \<open>register_callback\<close> has no check: it returns, and the table of callbacks has the
  callback under the identifier.
\<close>

theorem unknown_stream_not_rejected:
  "active_streams init_manager ''other'' = None
   \<and> stream_results init_manager ''other'' = None
   \<and> get_stream_status init_manager ''other'' = Inl (ValueError ''Stream other not found'')
   \<and> get_stream_results init_manager ''other'' 100 False
       = Inl (ValueError ''Stream other not found'')
   \<and> stop_stream init_manager ''other''
       = (Inl (ValueError ''Stream other not found''), init_manager)
   \<and> process_stream init_manager ''other'' picky_analyzer id = (Inr (), init_manager)
   \<and> register_callback init_manager ''other'' quiet_callback
       = (Inr (), init_manager\<lparr>stream_callbacks := [''other'' \<mapsto> [quiet_callback]]\<rparr>)"
  by (simp add: get_stream_status_def get_stream_results_def stop_stream_def
        process_stream_def register_callback_def init_manager_def not_found_def)

section \<open>The emotion detector never raises\<close>

lemma own_methods_return:
  "\<exists>r. dispatch (own_methods lib ms) model_type ms text = Inr r"
  by (simp add: dispatch_def own_methods_def detect_with_custom_def detect_with_ensemble_def
        detect_with_transformer_def detect_with_rule_based_def split: sum.splits)

text \<open>
  Claim C10. \<open>detect\<close> returns for every text, model type and set of models, whatever
  the method it dispatches to does; when that method raises, the result is the score 0
  for each of joy, anger, fear, sadness, surprise and disgust, and nothing else.
\<close>

theorem detect_never_raises:
  "(\<exists>r. detect_by self model_type ms text = Inr r)
   \<and> (\<forall>e. dispatch self model_type ms text = Inl e \<longrightarrow>
          detect_by self model_type ms text = Inr (constant_scores 0))
   \<and> (\<exists>r. detect lib model_type ms text = Inr r)
   \<and> (\<forall>emotion. constant_scores 0 emotion =
          (if emotion \<in> {''joy'', ''anger'', ''fear'', ''sadness'', ''surprise'', ''disgust''}
           then Some 0 else None))"
  by (auto simp add: detect_by_def detect_def constant_scores_apply emotions_def
        split: sum.splits)

theorem detect_never_raises_witness:
  "dispatch raising_methods ''transformer'' transformer_loaded ''hello''
     = Inl (LibraryError ''out of memory'')
   \<and> detect_by raising_methods ''transformer'' transformer_loaded ''hello''
       = Inr (constant_scores 0)
   \<and> constant_scores 0 ''fear'' = Some 0"
proof -
  have d: "dispatch raising_methods ''transformer'' transformer_loaded ''hello''
     = Inl (LibraryError ''out of memory'')"
    by (simp add: dispatch_def raising_methods_def transformer_loaded_def)
  from detect_never_raises [of raising_methods "''transformer''" transformer_loaded "''hello''"] d
  show ?thesis by auto
qed

end
